theory Spec2Isabelle
  imports Complex_Main
begin

section \<open>JavaScript values\<close>

text \<open>
  The values \<open>JSON.parse\<close> can produce. Numbers are IEEE doubles in the source; here a
  number is the rational it stands for, comparison, \<open>Math.min\<close> and \<open>Math.max\<close> are
  exact as they are on doubles, and every sum the code computes is rounded by a
  parameter, \<open>rnd\<close>, that stands for the rounding of a real number to the nearest
  double. An infinite double behaves in this code as any number beyond the bounds it is
  compared with. An object is the
  list of its own properties, the first entry for a name being its value; a property that
  is \<open>undefined\<close> is left out, so the lookup \<open>field\<close> returns \<open>None\<close> for it as for a
  missing one.
\<close>

datatype json =
    JNull
  | JBool bool
  | JNum rat
  | JStr string
  | JArr "json list"
  | JObj "(string \<times> json) list"

type_synonym object = "(string \<times> json) list"

text \<open>A JavaScript number after a coercion: \<open>NaN\<close> or a value.\<close>

datatype number = NaN | Num rat

text \<open>Thrown values: \<open>message\<close> is the \<open>.message\<close> property.\<close>

datatype error = Error string | TypeError string | SyntaxError string

fun message :: "error \<Rightarrow> string" where
  "message (Error m) = m"
| "message (TypeError m) = m"
| "message (SyntaxError m) = m"

text \<open>\<open>try { body } catch (e) { handler }\<close>: the handler may itself throw.\<close>

definition try_catch :: "(error + 'a) \<Rightarrow> (error \<Rightarrow> error + 'a) \<Rightarrow> error + 'a" where
  "try_catch body handler = (case body of Inl e \<Rightarrow> handler e | Inr v \<Rightarrow> Inr v)"

text \<open>
  Property access \<open>obj.k\<close>; \<open>None\<close> is \<open>undefined\<close>. It is used for the names
  \<open>parsed\<close>, \<open>rawResponse\<close> and those of the analysis, none of which is inherited from
  \<open>Object.prototype\<close>.
\<close>

definition field :: "object \<Rightarrow> string \<Rightarrow> json option" where
  "field obj k = map_of obj k"

text \<open>ToBoolean, on the result of a property access.\<close>

fun truthy :: "json option \<Rightarrow> bool" where
  "truthy None = False"
| "truthy (Some JNull) = False"
| "truthy (Some (JBool b)) = b"
| "truthy (Some (JNum q)) = (q \<noteq> 0)"
| "truthy (Some (JStr s)) = (s \<noteq> [])"
| "truthy (Some (JArr xs)) = True"
| "truthy (Some (JObj kvs)) = True"

text \<open>\<open>v || d\<close>: the left operand when it is truthy, else the right one.\<close>

definition or_else :: "json option \<Rightarrow> json \<Rightarrow> json" where
  "or_else v d = (case v of Some x \<Rightarrow> (if truthy v then x else d) | None \<Rightarrow> d)"

text \<open>
  The values that cannot be converted to a primitive. A parsed object inherits
  \<open>valueOf\<close> and \<open>toString\<close> from \<open>Object.prototype\<close>; the first returns the object
  itself and the second the string \<open>"[object Object]"\<close>. An own property named
  \<open>toString\<close> hides the inherited one, and a parsed value is never callable, so for
  such an object the conversion finds no method that returns a primitive and throws a
  \<open>TypeError\<close>. An array is converted by joining the strings of its elements
  (\<open>null\<close> gives the empty string), so it throws when one of its elements does.
\<close>

fun cannot_convert :: "json \<Rightarrow> bool" where
  "cannot_convert (JObj kvs) = (map_of kvs ''toString'' \<noteq> None)"
| "cannot_convert (JArr xs) = list_ex cannot_convert xs"
| "cannot_convert v = False"

text \<open>
  ToNumber: it throws on the values above. The conversions of strings (StringToNumber)
  and of arrays that can be joined (the string, then StringToNumber) are builtins of the
  language that are not written out: they are the parameter \<open>conv\<close>. The string of a
  plain object, \<open>"[object Object]"\<close>, is not a numeric literal.
\<close>

fun ToNumber :: "(json \<Rightarrow> number) \<Rightarrow> json \<Rightarrow> error + number" where
  "ToNumber conv JNull = Inr (Num 0)"
| "ToNumber conv (JBool b) = Inr (Num (if b then 1 else 0))"
| "ToNumber conv (JNum q) = Inr (Num q)"
| "ToNumber conv (JStr s) = Inr (conv (JStr s))"
| "ToNumber conv (JArr xs) =
     (if cannot_convert (JArr xs)
      then Inl (TypeError ''Cannot convert object to primitive value'')
      else Inr (conv (JArr xs)))"
| "ToNumber conv (JObj kvs) =
     (if cannot_convert (JObj kvs)
      then Inl (TypeError ''Cannot convert object to primitive value'')
      else Inr NaN)"

text \<open>The sum of two numbers, rounded to a double.\<close>

fun plus_number :: "(rat \<Rightarrow> rat) \<Rightarrow> number \<Rightarrow> number \<Rightarrow> number" where
  "plus_number rnd (Num a) (Num b) = Num (rnd (a + b))"
| "plus_number rnd _ _ = NaN"

fun Math_min :: "number \<Rightarrow> number \<Rightarrow> number" where
  "Math_min (Num a) (Num b) = Num (min a b)"
| "Math_min _ _ = NaN"

fun Math_max :: "number \<Rightarrow> number \<Rightarrow> number" where
  "Math_max (Num a) (Num b) = Num (max a b)"
| "Math_max _ _ = NaN"

section \<open>geminiService.js: parseGeminiResponse\<close>

text \<open>
  \<open>rawResponse.match(/\{[\s\S]*\}/)\<close>, as a backtracking matcher runs it. A string is
  the list of its code units. \<open>star_then_close\<close> is \<open>[\s\S]*\}\<close> at one position: the
  star first takes one more code unit (any one) and the rest is tried; only when that
  fails is the closing brace tried here.
\<close>

fun star_then_close :: "string \<Rightarrow> string option" where
  "star_then_close [] = None"
| "star_then_close (c # cs) =
     (case star_then_close cs of
        Some m \<Rightarrow> Some (c # m)
      | None \<Rightarrow> if c = CHR ''}'' then Some [c] else None)"

text \<open>The start positions are tried from the left; the result is \<open>jsonMatch[0]\<close>.\<close>

fun jsonMatch :: "string \<Rightarrow> string option" where
  "jsonMatch [] = None"
| "jsonMatch (c # cs) =
     (if c = CHR ''{'' then
        (case star_then_close cs of
           Some m \<Rightarrow> Some (c # m)
         | None \<Rightarrow> jsonMatch cs)
      else jsonMatch cs)"

text \<open>
  The fallback objects \<open>{ rawResponse, parsed: false }\<close> and
  \<open>{ rawResponse, parsed: false, error: error.message }\<close>. \<open>rawResponse\<close> is
  \<open>None\<close> when the upstream envelope had no text (the value is \<open>undefined\<close>).
\<close>

definition wrapped :: "string option \<Rightarrow> object" where
  "wrapped rawResponse =
     (case rawResponse of None \<Rightarrow> [] | Some s \<Rightarrow> [(''rawResponse'', JStr s)])
     @ [(''parsed'', JBool False)]"

definition wrapped_error :: "string option \<Rightarrow> error \<Rightarrow> object" where
  "wrapped_error rawResponse e = wrapped rawResponse @ [(''error'', JStr (message e))]"

text \<open>
  \<open>JSON.parse\<close> is a parameter: it throws (\<open>Inl\<close>) or returns a value. It is only
  applied to a match, which starts with an opening brace, so by the JSON grammar the
  value is an object.
\<close>

definition parseGeminiResponse ::
  "(string \<Rightarrow> error + object) \<Rightarrow> string option \<Rightarrow> error + object" where
  "parseGeminiResponse JSON_parse rawResponse =
     try_catch
       (case rawResponse of
          None \<Rightarrow> Inl (TypeError ''Cannot read properties of undefined (reading 'match')'')
        | Some s \<Rightarrow>
            (case jsonMatch s of
               Some m \<Rightarrow> JSON_parse m
             | None \<Rightarrow> Inr (wrapped rawResponse)))
       (\<lambda>e. Inr (wrapped_error rawResponse e))"

text \<open>
  Modelled from the spec's words, for comparison with \<open>jsonMatch\<close>: "the first
  syntactically balanced \<open>{...}\<close> object (brace-depth matching)". \<open>balanced_from d cs\<close>
  reads on at depth \<open>d\<close> until the brace that brings the depth back to 0.
\<close>

fun balanced_from :: "nat \<Rightarrow> string \<Rightarrow> string option" where
  "balanced_from d [] = None"
| "balanced_from d (c # cs) =
     (if c = CHR ''{'' then map_option ((#) c) (balanced_from (Suc d) cs)
      else if c = CHR ''}'' then
        (if d \<le> 1 then Some [c] else map_option ((#) c) (balanced_from (d - 1) cs))
      else map_option ((#) c) (balanced_from d cs))"

fun spec_first_balanced :: "string \<Rightarrow> string option" where
  "spec_first_balanced [] = None"
| "spec_first_balanced (c # cs) =
     (if c = CHR ''{'' then
        (case balanced_from 1 cs of
           Some m \<Rightarrow> Some (c # m)
         | None \<Rightarrow> spec_first_balanced cs)
      else spec_first_balanced cs)"

section \<open>cropTrackingService.js: formatAnalysisForStorage\<close>

text \<open>
  A date value: \<open>null\<close>, an invalid \<open>Date\<close>, or a \<open>Date\<close> with its time value, the
  milliseconds since the epoch. \<open>new Date(value)\<close> clips the value to the range of time
  values.
\<close>

datatype date = Null | InvalidDate | Date int

definition TimeClip :: "int \<Rightarrow> date" where
  "TimeClip t = (if \<bar>t\<bar> \<le> 8640000000000000 then Date t else InvalidDate)"

text \<open>
  The object \<open>calculateNextPhotoDate\<close> returns, and the analysis object, which has the
  same three properties and five more. \<open>growthStage\<close> and \<open>observations\<close> are whatever
  truthy value the response carried; the elements of \<open>issues\<close> and \<open>recommendations\<close>
  are not inspected.
\<close>

record schedule =
  nextPhotoDate :: date
  nextPhotoDays :: number
  urgency :: string

record analysis = schedule +
  healthScore :: number
  growthStage :: json
  issues :: "json list"
  observations :: json
  recommendations :: "json list"

text \<open>The record of the fallback branch ("Fallback for unparsed responses").\<close>

definition unparsed :: "object \<Rightarrow> analysis" where
  "unparsed geminiResponse =
     \<lparr> nextPhotoDate = Null,
       nextPhotoDays = Num 3,
       urgency = ''important'',
       healthScore = Num 50,
       growthStage = JStr ''unknown'',
       issues = [JStr ''Unable to parse AI response''],
       observations = or_else (field geminiResponse ''rawResponse'') (JStr ''Analysis unavailable''),
       recommendations = [JStr ''Manual review needed''] \<rparr>"

text \<open>
  The properties of the object literal are evaluated in the order written: the
  conversion inside \<open>Math.min(100, ...)\<close> for \<open>healthScore\<close> comes first and the one
  inside \<open>Math.min(7, ...)\<close> for \<open>nextPhotoDays\<close> second; either may throw, and then
  no record is built. Nothing else in the function throws.
\<close>

definition formatAnalysisForStorage ::
  "(json \<Rightarrow> number) \<Rightarrow> object \<Rightarrow> number \<Rightarrow> error + analysis" where
  "formatAnalysisForStorage conv geminiResponse dayNumber =
     (if \<not> truthy (field geminiResponse ''parsed'')
         \<and> field geminiResponse ''parsed'' \<noteq> Some (JBool False) then
        (case ToNumber conv (or_else (field geminiResponse ''healthScore'') (JNum 50)) of
           Inl e \<Rightarrow> Inl e
         | Inr h \<Rightarrow>
             (case ToNumber conv (or_else (field geminiResponse ''nextPhotoDays'') (JNum 4)) of
                Inl e \<Rightarrow> Inl e
              | Inr n \<Rightarrow>
                  Inr \<lparr> nextPhotoDate = Null,
                        nextPhotoDays = Math_max (Num 1) (Math_min (Num 7) n),
                        urgency =
                          (case field geminiResponse ''urgency'' of
                             Some (JStr u) \<Rightarrow>
                               if u \<in> set [''routine'', ''important'', ''critical'', ''urgent'']
                               then u else ''routine''
                           | _ \<Rightarrow> ''routine''),
                        healthScore = Math_max (Num 0) (Math_min (Num 100) h),
                        growthStage =
                          or_else (field geminiResponse ''growthStage'') (JStr ''unknown''),
                        issues =
                          (case field geminiResponse ''issues'' of
                             Some (JArr xs) \<Rightarrow> xs
                           | _ \<Rightarrow> []),
                        observations =
                          or_else (field geminiResponse ''observations'')
                            (JStr ''No observations available''),
                        recommendations =
                          (case field geminiResponse ''recommendations'' of
                             Some (JArr xs) \<Rightarrow> xs
                           | _ \<Rightarrow> [JStr ''Monitor plant growth'']) \<rparr>))
      else Inr (unparsed geminiResponse))"

section \<open>server.js: the API key rotation and callGeminiAPI\<close>

text \<open>
  What the process holds and does to the outside: the environment variable
  \<open>GEMINI_API_KEY\<close> (\<open>None\<close> when unset), the keys loaded from
  \<open>GEMINI_API_KEY_1\<close> to \<open>GEMINI_API_KEY_5\<close> (after the filter that drops the unset
  and blank ones), the rotation counter (a natural number: the source's double counts
  exactly up to \<open>2^53\<close>), and the trace of requests sent and delays waited, oldest
  first.
\<close>

record payload =
  parts_text :: string
  parts_inlineData :: "string option"
  temperature :: rat
  topK :: nat
  topP :: nat
  maxOutputTokens :: nat

datatype event =
    Post string "string option" payload
  | Sleep nat

record world =
  GEMINI_API_KEY :: "string option"
  apiKeys :: "string list"
  rotationCounter :: nat
  trace :: "event list"

definition ROTATION_INTERVAL :: nat where
  "ROTATION_INTERVAL = 3"

definition keyIndex :: "world \<Rightarrow> nat" where
  "keyIndex w = (rotationCounter w div ROTATION_INTERVAL) mod length (apiKeys w)"

definition getNextApiKey :: "world \<Rightarrow> string option \<times> world" where
  "getNextApiKey w =
     (if length (apiKeys w) > 0 then
        (let selectedKey = apiKeys w ! keyIndex w
         in (Some selectedKey, w\<lparr>rotationCounter := rotationCounter w + 1\<rparr>))
      else (GEMINI_API_KEY w, w))"

text \<open>\<open>n\<close> calls in a row: the values returned, in order, and the state after the last.\<close>

fun selections :: "nat \<Rightarrow> world \<Rightarrow> string option list \<times> world" where
  "selections 0 w = ([], w)"
| "selections (Suc n) w =
     (let (k, w1) = getNextApiKey w; (ks, w2) = selections n w1 in (k # ks, w2))"

text \<open>The key indices of \<open>n\<close> calls in a row on a non-empty pool.\<close>

fun indices :: "nat \<Rightarrow> world \<Rightarrow> nat list" where
  "indices 0 w = []"
| "indices (Suc n) w = keyIndex w # indices n (snd (getNextApiKey w))"

text \<open>
  One request to the upstream: \<open>axios.post\<close> and the read of
  \<open>response.data.candidates[0].content.parts[0].text\<close> that follows it in the same
  \<open>try\<close>. The upstream is a parameter, \<open>up\<close>: the outcome of the request that comes
  after \<open>n\<close> earlier ones, either a thrown error (network, status, malformed envelope)
  or the text (\<open>None\<close> when the envelope has none). The request is recorded with its
  model, its key and its payload.
\<close>

fun is_post :: "event \<Rightarrow> bool" where
  "is_post (Post m k p) = True"
| "is_post (Sleep n) = False"

definition posts :: "event list \<Rightarrow> nat" where
  "posts evs = length (filter is_post evs)"

definition axios_post ::
  "(nat \<Rightarrow> error + string option) \<Rightarrow> string \<Rightarrow> string option \<Rightarrow> payload \<Rightarrow> world
     \<Rightarrow> (error + string option) \<times> world" where
  "axios_post up model key p w =
     (up (posts (trace w)), w\<lparr>trace := trace w @ [Post model key p]\<rparr>)"

definition setTimeout :: "nat \<Rightarrow> world \<Rightarrow> world" where
  "setTimeout ms w = w\<lparr>trace := trace w @ [Sleep ms]\<rparr>"

definition image_part :: "string option \<Rightarrow> string option" where
  "image_part imageBase64 =
     (case imageBase64 of None \<Rightarrow> None | Some d \<Rightarrow> if d = [] then None else Some d)"

definition callGeminiAPI ::
  "(nat \<Rightarrow> error + string option) \<Rightarrow> string \<Rightarrow> string option \<Rightarrow> world
     \<Rightarrow> (error + string option) \<times> world" where
  "callGeminiAPI up prompt imageBase64 w =
     (let (key, w1) = getNextApiKey w;
          p = \<lparr> parts_text = prompt, parts_inlineData = image_part imageBase64,
                temperature = 4 / 10, topK = 32, topP = 1, maxOutputTokens = 4096 \<rparr>;
          (r, w2) = axios_post up ''gemini-2.5-flash'' key p w1
      in (try_catch r (\<lambda>e. Inl (Error ''AI analysis failed'')), w2))"

section \<open>geminiService.js: analyzeWithGemini\<close>

text \<open>The \<open>options\<close> argument; a property that is not given is \<open>None\<close>.\<close>

record options =
  opt_temperature :: "rat option"
  opt_maxTokens :: "nat option"
  opt_model :: "string option"

text \<open>
  The loop \<open>for (let attempt = 0; attempt < 3; attempt++)\<close>. The URL (model and key) and
  the payload are built before the loop and are the same at every attempt. A successful
  request returns from inside the loop; a failed one is remembered in \<open>lastError\<close> and,
  after the first and the second attempt, followed by a delay of
  \<open>1000 * (attempt + 1)\<close> milliseconds. After the loop the function throws.
\<close>

function attempt_loop ::
  "(nat \<Rightarrow> error + string option) \<Rightarrow> string \<Rightarrow> string option \<Rightarrow> payload \<Rightarrow> nat
     \<Rightarrow> error option \<Rightarrow> world \<Rightarrow> (error + string option) \<times> world" where
  "attempt_loop up model key p attempt lastError w =
     (if attempt < 3 then
        (let r = axios_post up model key p w in
         case fst r of
           Inr txt \<Rightarrow> (Inr txt, snd r)
         | Inl e \<Rightarrow>
             attempt_loop up model key p (attempt + 1) (Some e)
               (if attempt < 2 then setTimeout (1000 * (attempt + 1)) (snd r) else snd r))
      else
        (case lastError of
           Some e \<Rightarrow> (Inl (Error (''Gemini API failed after 3 attempts: '' @ message e)), w)
         | None \<Rightarrow> (Inl (TypeError ''Cannot read properties of undefined (reading message)''), w)))"
  by pat_completeness auto
termination
  by (relation "measure (\<lambda>(up, model, key, p, attempt, lastError, w). 3 - attempt)") auto

declare attempt_loop.simps [simp del]

definition analyzeWithGemini ::
  "(nat \<Rightarrow> error + string option) \<Rightarrow> string \<Rightarrow> string option \<Rightarrow> options \<Rightarrow> world
     \<Rightarrow> (error + string option) \<times> world" where
  "analyzeWithGemini up prompt imageBase64 opts w =
     (let temperature' = (case opt_temperature opts of Some t \<Rightarrow> t | None \<Rightarrow> 4 / 10);
          maxTokens = (case opt_maxTokens opts of Some n \<Rightarrow> n | None \<Rightarrow> 4096);
          model = (case opt_model opts of Some m \<Rightarrow> m | None \<Rightarrow> ''gemini-2.0-flash'');
          key = GEMINI_API_KEY w;
          p = \<lparr> parts_text = prompt, parts_inlineData = image_part imageBase64,
                temperature = temperature', topK = 32, topP = 1, maxOutputTokens = maxTokens \<rparr>
      in attempt_loop up model key p 0 None w)"

section \<open>cropTrackingService.js: analyzeGrowthPhoto\<close>

record cropInfo =
  cropType :: "string option"
  dayNumber :: "number option"
  language :: "string option"

text \<open>
  The record of the \<open>catch\<close> block ("Return fallback analysis"); \<open>now\<close> is what
  \<open>Date.now()\<close> returns there, in milliseconds.
\<close>

definition unavailable :: "int \<Rightarrow> analysis" where
  "unavailable now =
     \<lparr> nextPhotoDate = TimeClip (now + 3 * 24 * 60 * 60 * 1000),
       nextPhotoDays = Num 3,
       urgency = ''important'',
       healthScore = Num 50,
       growthStage = JStr ''unknown'',
       issues = [JStr ''Analysis failed - manual review needed''],
       observations = JStr ''AI analysis unavailable'',
       recommendations = [JStr ''Upload photo again'', JStr ''Check image quality''] \<rparr>"

text \<open>
  What \<open>analyzeGrowthPhoto\<close> does with the outcome of the awaited call: the rest of its
  \<open>try\<close> block (parse, then format) and its \<open>catch\<close> block, which also answers an
  error thrown while formatting. This is the operation the specification calls
  normalize.
\<close>

definition normalize_outcome ::
  "(string \<Rightarrow> error + object) \<Rightarrow> (json \<Rightarrow> number) \<Rightarrow> int \<Rightarrow> number
     \<Rightarrow> error + string option \<Rightarrow> error + analysis" where
  "normalize_outcome JSON_parse conv now dayNumber' outcome =
     try_catch
       (case outcome of
          Inl e \<Rightarrow> Inl e
        | Inr rawResponse \<Rightarrow>
            (case parseGeminiResponse JSON_parse rawResponse of
               Inl e \<Rightarrow> Inl e
             | Inr parsedResponse \<Rightarrow>
                 formatAnalysisForStorage conv parsedResponse dayNumber'))
       (\<lambda>e. Inr (unavailable now))"

text \<open>
  The prompt text is built by \<open>buildGrowthAnalysisPrompt\<close>, a parameter here (\<open>bp\<close>): no
  claim depends on its wording.
\<close>

definition analyzeGrowthPhoto ::
  "(string \<Rightarrow> error + object) \<Rightarrow> (json \<Rightarrow> number) \<Rightarrow> (nat \<Rightarrow> error + string option) \<Rightarrow> int
     \<Rightarrow> (string \<Rightarrow> number \<Rightarrow> string option \<Rightarrow> string \<Rightarrow> string)
     \<Rightarrow> string \<Rightarrow> string option \<Rightarrow> string option \<Rightarrow> cropInfo \<Rightarrow> world
     \<Rightarrow> (error + analysis) \<times> world" where
  "analyzeGrowthPhoto JSON_parse conv up now bp cropId imageBase64 previousPhotoSummary info w =
     (let cropType' = (case cropType info of Some c \<Rightarrow> c | None \<Rightarrow> ''unknown'');
          dayNumber' = (case dayNumber info of Some d \<Rightarrow> d | None \<Rightarrow> Num 1);
          language' = (case language info of Some l \<Rightarrow> l | None \<Rightarrow> ''en'');
          prompt = bp cropType' dayNumber' previousPhotoSummary language';
          r = analyzeWithGemini up prompt imageBase64
                \<lparr> opt_temperature = None, opt_maxTokens = None,
                  opt_model = Some ''gemini-2.0-flash'' \<rparr> w
      in (normalize_outcome JSON_parse conv now dayNumber' (fst r), snd r))"

section \<open>cropTrackingService.js: calculateNextPhotoDate\<close>

text \<open>
  \<open>toLowerCase\<close> on the letters A to Z. (Of the characters outside ASCII, none has a
  lower case that can complete one of the three keywords searched for below.)
\<close>

definition toLowerCase_char :: "char \<Rightarrow> char" where
  "toLowerCase_char c =
     (case map_of (zip ''ABCDEFGHIJKLMNOPQRSTUVWXYZ'' ''abcdefghijklmnopqrstuvwxyz'') c of
        Some l \<Rightarrow> l
      | None \<Rightarrow> c)"

definition toLowerCase :: "string \<Rightarrow> string" where
  "toLowerCase s = map toLowerCase_char s"

fun startsWith :: "string \<Rightarrow> string \<Rightarrow> bool" where
  "startsWith s [] = True"
| "startsWith [] (p # ps) = False"
| "startsWith (c # cs) (p # ps) = (c = p \<and> startsWith cs ps)"

fun String_includes :: "string \<Rightarrow> string \<Rightarrow> bool" where
  "String_includes [] sub = (sub = [])"
| "String_includes (c # cs) sub = (startsWith (c # cs) sub \<or> String_includes cs sub)"

text \<open>
  \<open>currentAnalysis.issues.some(issue => ...)\<close>: the elements are visited in order until
  one satisfies the test. An element that is not a string has no \<open>toLowerCase\<close>, and the
  call throws.
\<close>

fun hasCriticalIssues :: "json list \<Rightarrow> error + bool" where
  "hasCriticalIssues [] = Inr False"
| "hasCriticalIssues (JStr issue # rest) =
     (if String_includes (toLowerCase issue) ''disease''
         \<or> String_includes (toLowerCase issue) ''pest''
         \<or> String_includes (toLowerCase issue) ''dying''
      then Inr True else hasCriticalIssues rest)"
| "hasCriticalIssues (JNull # rest) =
     Inl (TypeError ''Cannot read properties of null (reading 'toLowerCase')'')"
| "hasCriticalIssues (v # rest) = Inl (TypeError ''issue.toLowerCase is not a function'')"

text \<open>
  The object literal \<open>stageAdjustments\<close>: its own properties, and the names it inherits
  from \<open>Object.prototype\<close>, whose values are functions or objects.
\<close>

definition stageAdjustments :: "(string \<times> rat) list" where
  "stageAdjustments =
     [(''germination'', 1), (''flowering'', - 1), (''fruiting'', - 1), (''maturity'', 1)]"

definition Object_prototype :: "string list" where
  "Object_prototype =
     [''constructor'', ''hasOwnProperty'', ''isPrototypeOf'', ''propertyIsEnumerable'',
      ''toLocaleString'', ''toString'', ''valueOf'', ''__proto__'', ''__defineGetter__'',
      ''__defineSetter__'', ''__lookupGetter__'', ''__lookupSetter__'']"

definition less_number :: "number \<Rightarrow> rat \<Rightarrow> bool" where
  "less_number x b = (case x of NaN \<Rightarrow> False | Num a \<Rightarrow> a < b)"

definition le_number :: "number \<Rightarrow> rat \<Rightarrow> bool" where
  "le_number x b = (case x of NaN \<Rightarrow> False | Num a \<Rightarrow> a \<le> b)"

text \<open>
  The methods of \<open>Date\<close> that the function calls, as the language defines them. A time
  value \<open>t\<close> falls on day \<open>Day t\<close> since the epoch, at \<open>TimeWithinDay t\<close> within that
  day, and \<open>DateFromTime t\<close> is its day of the month in the Gregorian calendar (computed
  here from the day number by counting in cycles of 400 years that start on a first of
  March). The time zone of the host is a parameter, \<open>tza\<close>: \<open>tza t True\<close> is the offset
  of local time at the time value \<open>t\<close>, \<open>tza t False\<close> the offset at the local time
  \<open>t\<close>, both in milliseconds; a host in UTC has \<open>tza = (\<lambda>t u. 0)\<close>.
\<close>

definition msPerDay :: int where
  "msPerDay = 86400000"

definition Day :: "int \<Rightarrow> int" where
  "Day t = t div msPerDay"

definition TimeWithinDay :: "int \<Rightarrow> int" where
  "TimeWithinDay t = t mod msPerDay"

definition DateFromTime :: "int \<Rightarrow> int" where
  "DateFromTime t =
     (let z = Day t + 719468;
          era = z div 146097;
          doe = z - era * 146097;
          yoe = (doe - doe div 1460 + doe div 36524 - doe div 146096) div 365;
          doy = doe - (365 * yoe + yoe div 4 - yoe div 100);
          mp = (5 * doy + 2) div 153
      in doy - (153 * mp + 2) div 5 + 1)"

definition LocalTime :: "(int \<Rightarrow> bool \<Rightarrow> int) \<Rightarrow> int \<Rightarrow> int" where
  "LocalTime tza t = t + tza t True"

definition UTC :: "(int \<Rightarrow> bool \<Rightarrow> int) \<Rightarrow> int \<Rightarrow> int" where
  "UTC tza t = t - tza t False"

definition ToIntegerOrInfinity :: "rat \<Rightarrow> int" where
  "ToIntegerOrInfinity x = (if 0 \<le> x then \<lfloor>x\<rfloor> else \<lceil>x\<rceil>)"

text \<open>\<open>d.getDate()\<close> on a date with the time value \<open>t\<close>.\<close>

definition getDate :: "(int \<Rightarrow> bool \<Rightarrow> int) \<Rightarrow> int \<Rightarrow> number" where
  "getDate tza t = Num (of_int (DateFromTime (LocalTime tza t)))"

text \<open>
  \<open>d.setDate(dt)\<close> on a date with the time value \<open>t\<close>, and the date it leaves in
  \<open>d\<close>: the day is counted from the first of the local month, the time within the
  local day is kept, and the local time so made is taken back to a time value.
\<close>

definition setDate :: "(int \<Rightarrow> bool \<Rightarrow> int) \<Rightarrow> int \<Rightarrow> number \<Rightarrow> date" where
  "setDate tza t dt =
     (case dt of
        NaN \<Rightarrow> InvalidDate
      | Num x \<Rightarrow>
          (let local = LocalTime tza t;
               day = Day local - DateFromTime local + ToIntegerOrInfinity x
           in TimeClip (UTC tza (day * msPerDay + TimeWithinDay local))))"

text \<open>
  \<open>now\<close> is the time value of \<open>new Date()\<close>, and \<open>growthStage\<close> is a string, as the
  function's documentation says. \<open>baseDays\<close> is a number until the stage adjustment;
  added to an inherited function or object it becomes a string that \<open>Math.min\<close> reads
  as \<open>NaN\<close>.
\<close>

definition calculateNextPhotoDate ::
  "(rat \<Rightarrow> rat) \<Rightarrow> (int \<Rightarrow> bool \<Rightarrow> int) \<Rightarrow> int \<Rightarrow> analysis \<Rightarrow> string \<Rightarrow> string
     \<Rightarrow> error + schedule" where
  "calculateNextPhotoDate rnd tza now currentAnalysis cropType' growthStage' =
     (let baseDays0 = (case nextPhotoDays currentAnalysis of
                         NaN \<Rightarrow> 4
                       | Num q \<Rightarrow> if q = 0 then 4 else q);
          baseDays1 = (if less_number (healthScore currentAnalysis) 70
                       then max 1 (rnd (baseDays0 - 1)) else baseDays0)
      in case (if issues currentAnalysis = [] then Inr False
               else hasCriticalIssues (issues currentAnalysis)) of
           Inl e \<Rightarrow> Inl e
         | Inr critical \<Rightarrow>
             (let baseDays2 = (if critical then min 2 baseDays1 else baseDays1);
                  baseDays3 =
                    (case map_of stageAdjustments growthStage' of
                       Some a \<Rightarrow> Num (rnd (baseDays2 + a))
                     | None \<Rightarrow>
                         if growthStage' \<in> set Object_prototype then NaN
                         else Num (rnd (baseDays2 + 0)));
                  finalDays = Math_max (Num 1) (Math_min (Num 7) baseDays3);
                  urgency' = (if le_number finalDays 2 then ''critical''
                             else if le_number finalDays 3 then ''important''
                             else ''routine'')
              in Inr \<lparr> nextPhotoDate =
                         setDate tza now (plus_number rnd (getDate tza now) finalDays),
                       nextPhotoDays = finalDays,
                       urgency = urgency' \<rparr>))"

section \<open>The extraction step\<close>

lemma star_then_close_None: "star_then_close cs = None \<longleftrightarrow> CHR ''}'' \<notin> set cs"
  by (induction cs) (auto split: option.splits)

lemma star_then_close_append:
  "CHR ''}'' \<notin> set post \<Longrightarrow> star_then_close (body @ CHR ''}'' # post) = Some (body @ [CHR ''}''])"
proof (induction body)
  case Nil
  then have "star_then_close post = None"
    by (simp add: star_then_close_None)
  then show ?case by simp
next
  case (Cons c body)
  then show ?case by simp
qed

lemma star_then_close_Some:
  "star_then_close cs = Some m \<Longrightarrow>
     \<exists>body post. cs = body @ CHR ''}'' # post \<and> m = body @ [CHR ''}''] \<and> CHR ''}'' \<notin> set post"
proof (induction cs arbitrary: m)
  case Nil
  then show ?case by simp
next
  case (Cons c cs)
  show ?case
  proof (cases "star_then_close cs")
    case None
    with Cons.prems have "c = CHR ''}''" and "m = [c]"
      by (auto split: if_splits)
    moreover from None have "CHR ''}'' \<notin> set cs"
      by (simp add: star_then_close_None)
    ultimately have "c # cs = [] @ CHR ''}'' # cs \<and> m = [] @ [CHR ''}''] \<and> CHR ''}'' \<notin> set cs"
      by simp
    then show ?thesis by blast
  next
    case (Some m')
    with Cons.prems have m: "m = c # m'" by simp
    from Cons.IH [OF Some] obtain body post where
      "cs = body @ CHR ''}'' # post" "m' = body @ [CHR ''}'']" "CHR ''}'' \<notin> set post"
      by blast
    with m have "c # cs = (c # body) @ CHR ''}'' # post \<and> m = (c # body) @ [CHR ''}''] \<and> CHR ''}'' \<notin> set post"
      by simp
    then show ?thesis by blast
  qed
qed

lemma jsonMatch_append:
  "CHR ''{'' \<notin> set pre \<Longrightarrow> CHR ''}'' \<notin> set post \<Longrightarrow>
     jsonMatch (pre @ CHR ''{'' # body @ CHR ''}'' # post) = Some (CHR ''{'' # body @ [CHR ''}''])"
  by (induction pre) (auto simp: star_then_close_append)

lemma jsonMatch_Some:
  "jsonMatch s = Some m \<Longrightarrow>
     \<exists>pre body post. s = pre @ m @ post \<and> m = CHR ''{'' # body @ [CHR ''}'']
        \<and> CHR ''{'' \<notin> set pre \<and> CHR ''}'' \<notin> set post"
proof (induction s)
  case Nil
  then show ?case by simp
next
  case (Cons c cs)
  show ?case
  proof (cases "c = CHR ''{'' \<and> star_then_close cs \<noteq> None")
    case True
    then obtain m' where m': "star_then_close cs = Some m'" by blast
    with True Cons.prems have m: "m = c # m'" by simp
    from star_then_close_Some [OF m'] obtain body post where
      "cs = body @ CHR ''}'' # post" "m' = body @ [CHR ''}'']" "CHR ''}'' \<notin> set post"
      by blast
    with m True have "c # cs = [] @ m @ post \<and> m = CHR ''{'' # body @ [CHR ''}'']
        \<and> CHR ''{'' \<notin> set [] \<and> CHR ''}'' \<notin> set post"
      by simp
    then show ?thesis by blast
  next
    case False
    with Cons.prems have rest: "jsonMatch cs = Some m"
      by (auto split: if_splits)
    from Cons.IH [OF rest] obtain pre body post where dec:
      "cs = pre @ m @ post" "m = CHR ''{'' # body @ [CHR ''}'']"
      "CHR ''{'' \<notin> set pre" "CHR ''}'' \<notin> set post"
      by blast
    then have "CHR ''}'' \<in> set cs" by simp
    then have "star_then_close cs \<noteq> None"
      by (simp add: star_then_close_None)
    with False have c: "c \<noteq> CHR ''{''" by blast
    with dec have "c # cs = (c # pre) @ m @ post \<and> m = CHR ''{'' # body @ [CHR ''}'']
        \<and> CHR ''{'' \<notin> set (c # pre) \<and> CHR ''}'' \<notin> set post"
      by simp
    then show ?thesis by blast
  qed
qed

text \<open>
  C1, as amended. The extraction step of \<open>parseGeminiResponse\<close> selects the part of the
  text from its first opening brace to its last closing brace, when a closing brace comes
  after the first opening one: \<open>jsonMatch s = Some m\<close> exactly when \<open>m\<close> starts with an
  opening brace, ends with a closing brace, no opening brace of \<open>s\<close> stands before \<open>m\<close>
  and no closing brace after it. The selected text is then given to \<open>JSON.parse\<close>; its
  value is returned, and a thrown error or a text with no match gives the fallback
  object.
\<close>

theorem jsonMatch_first_open_to_last_close:
  "(jsonMatch s = Some m \<longleftrightarrow>
      (\<exists>pre body post. s = pre @ m @ post \<and> m = CHR ''{'' # body @ [CHR ''}'']
         \<and> CHR ''{'' \<notin> set pre \<and> CHR ''}'' \<notin> set post))
   \<and> parseGeminiResponse JSON_parse (Some s) =
       (case jsonMatch s of
          None \<Rightarrow> Inr (wrapped (Some s))
        | Some x \<Rightarrow>
            (case JSON_parse x of
               Inr obj \<Rightarrow> Inr obj
             | Inl e \<Rightarrow> Inr (wrapped_error (Some s) e)))"
proof -
  have "jsonMatch s = Some m" if
    "s = pre @ m @ post" "m = CHR ''{'' # body @ [CHR ''}'']"
    "CHR ''{'' \<notin> set pre" "CHR ''}'' \<notin> set post" for pre body post
    using that jsonMatch_append [of pre post body] by simp
  then have "jsonMatch s = Some m \<longleftrightarrow>
      (\<exists>pre body post. s = pre @ m @ post \<and> m = CHR ''{'' # body @ [CHR ''}'']
         \<and> CHR ''{'' \<notin> set pre \<and> CHR ''}'' \<notin> set post)"
    using jsonMatch_Some [of s m] by blast
  moreover have "parseGeminiResponse JSON_parse (Some s) =
       (case jsonMatch s of
          None \<Rightarrow> Inr (wrapped (Some s))
        | Some x \<Rightarrow>
            (case JSON_parse x of
               Inr obj \<Rightarrow> Inr obj
             | Inl e \<Rightarrow> Inr (wrapped_error (Some s) e)))"
    by (simp add: parseGeminiResponse_def try_catch_def split: option.splits sum.splits)
  ultimately show ?thesis by blast
qed

text \<open>
  C1, as stated, fails: on a text with two objects the first balanced object is the
  first of them, and the extraction step selects from the first opening brace to the end
  of the second object.
\<close>

theorem extraction_not_first_balanced:
  "jsonMatch ''{a} and {b}'' = Some ''{a} and {b}''
   \<and> spec_first_balanced ''{a} and {b}'' = Some ''{a}''
   \<and> jsonMatch ''{a} and {b}'' \<noteq> spec_first_balanced ''{a} and {b}''"
  by simp

section \<open>The key rotation\<close>

text \<open>
  C6. With the rotation interval 3, a pool of two keys and the counter at 0, the first six
  calls of \<open>getNextApiKey\<close> use the key indices 0, 0, 0, 1, 1, 1, return the first key
  three times and then the second key three times, and leave the counter at 6. On any
  non-empty pool a call returns the key at index \<open>floor(rotationCounter / 3) mod length\<close>
  and adds 1 to the counter.
\<close>

theorem rotation_two_keys_batches_of_three:
  "apiKeys w = [k0, k1] \<Longrightarrow> rotationCounter w = 0 \<Longrightarrow>
     indices 6 w = [0, 0, 0, 1, 1, 1]
     \<and> fst (selections 6 w) = [Some k0, Some k0, Some k0, Some k1, Some k1, Some k1]
     \<and> rotationCounter (snd (selections 6 w)) = 6
     \<and> (apiKeys v \<noteq> [] \<longrightarrow>
          getNextApiKey v =
            (Some (apiKeys v ! ((rotationCounter v div 3) mod length (apiKeys v))),
             v\<lparr>rotationCounter := rotationCounter v + 1\<rparr>))"
proof -
  assume keys: "apiKeys w = [k0, k1]" and zero: "rotationCounter w = 0"
  have six: "(6::nat) = Suc (Suc (Suc (Suc (Suc (Suc 0)))))"
    by simp
  have step: "getNextApiKey u =
      (Some ([k0, k1] ! ((rotationCounter u div 3) mod 2)), u\<lparr>rotationCounter := rotationCounter u + 1\<rparr>)"
    if "apiKeys u = [k0, k1]" for u
    using that by (simp add: getNextApiKey_def keyIndex_def ROTATION_INTERVAL_def numeral_2_eq_2)
  have idx: "keyIndex u = (rotationCounter u div 3) mod 2" if "apiKeys u = [k0, k1]" for u
    using that by (simp add: keyIndex_def ROTATION_INTERVAL_def numeral_2_eq_2)
  have "indices 6 w = [0, 0, 0, 1, 1, 1]"
    unfolding six using keys zero by (simp add: step idx)
  moreover have sel: "selections 6 w =
      ([Some k0, Some k0, Some k0, Some k1, Some k1, Some k1], w\<lparr>rotationCounter := 6\<rparr>)"
    unfolding six using keys zero by (simp add: step)
  moreover have "apiKeys v \<noteq> [] \<longrightarrow>
          getNextApiKey v =
            (Some (apiKeys v ! ((rotationCounter v div 3) mod length (apiKeys v))),
             v\<lparr>rotationCounter := rotationCounter v + 1\<rparr>)"
    by (simp add: getNextApiKey_def keyIndex_def ROTATION_INTERVAL_def)
  ultimately show ?thesis by simp
qed

theorem rotation_two_keys_witness:
  "indices 6 \<lparr>GEMINI_API_KEY = None, apiKeys = [''key-one'', ''key-two''],
               rotationCounter = 0, trace = []\<rparr> = [0, 0, 0, 1, 1, 1]
   \<and> fst (selections 6 \<lparr>GEMINI_API_KEY = None, apiKeys = [''key-one'', ''key-two''],
               rotationCounter = 0, trace = []\<rparr>)
       = [Some ''key-one'', Some ''key-one'', Some ''key-one'',
          Some ''key-two'', Some ''key-two'', Some ''key-two'']"
  using rotation_two_keys_batches_of_three
    [where w = "\<lparr>GEMINI_API_KEY = None, apiKeys = [''key-one'', ''key-two''],
               rotationCounter = 0, trace = []\<rparr>" and ?k0.0 = "''key-one''" and ?k1.0 = "''key-two''"]
  by simp

lemma selections_empty_pool:
  "apiKeys w = [] \<Longrightarrow> selections n w = (replicate n (GEMINI_API_KEY w), w)"
  by (induction n) (simp_all add: getNextApiKey_def)

text \<open>
  C7. When the pool is empty, \<open>getNextApiKey\<close> returns the value of the environment
  variable \<open>GEMINI_API_KEY\<close> and leaves the state as it was, the rotation counter
  included; so does any number of calls in a row.
\<close>

theorem empty_pool_returns_legacy_key:
  "apiKeys w = [] \<Longrightarrow>
     getNextApiKey w = (GEMINI_API_KEY w, w)
     \<and> selections n w = (replicate n (GEMINI_API_KEY w), w)
     \<and> rotationCounter (snd (selections n w)) = rotationCounter w"
  by (simp add: selections_empty_pool getNextApiKey_def)

theorem empty_pool_witness:
  "getNextApiKey \<lparr>GEMINI_API_KEY = Some ''legacy'', apiKeys = [], rotationCounter = 7, trace = []\<rparr>
     = (Some ''legacy'',
        \<lparr>GEMINI_API_KEY = Some ''legacy'', apiKeys = [], rotationCounter = 7, trace = []\<rparr>)
   \<and> rotationCounter (snd (selections 4
         \<lparr>GEMINI_API_KEY = Some ''legacy'', apiKeys = [], rotationCounter = 7, trace = []\<rparr>)) = 7"
  using empty_pool_returns_legacy_key
    [of "\<lparr>GEMINI_API_KEY = Some ''legacy'', apiKeys = [], rotationCounter = 7, trace = []\<rparr>" 4]
  by simp

section \<open>The fields of the formatted analysis\<close>

text \<open>
  The record of the \<open>catch\<close> block, written out; when formatting throws; and what
  becomes of a text whose match parses.
\<close>

lemma unavailable_record:
  "unavailable now =
     \<lparr>nextPhotoDate =
                  (if \<bar>now + 259200000\<bar> \<le> 8640000000000000
                   then Date (now + 259200000) else InvalidDate),
                nextPhotoDays = Num 3, urgency = ''important'',
                healthScore = Num 50, growthStage = JStr ''unknown'',
                issues = [JStr ''Analysis failed - manual review needed''],
                observations = JStr ''AI analysis unavailable'',
                recommendations = [JStr ''Upload photo again'', JStr ''Check image quality'']\<rparr>"
  by (simp add: unavailable_def TimeClip_def)

lemma normalize_outcome_parsed:
  "jsonMatch s = Some m \<Longrightarrow> JSON_parse m = Inr obj \<Longrightarrow>
     normalize_outcome JSON_parse conv now d (Inr (Some s)) =
       (case formatAnalysisForStorage conv obj d of
          Inr a \<Rightarrow> Inr a
        | Inl e \<Rightarrow> Inr (unavailable now))"
  by (simp add: normalize_outcome_def try_catch_def parseGeminiResponse_def split: sum.splits)

lemma formatAnalysisForStorage_throws_iff:
  "(\<exists>e. formatAnalysisForStorage conv obj d = Inl e) \<longleftrightarrow>
     (\<not> truthy (field obj ''parsed'') \<and> field obj ''parsed'' \<noteq> Some (JBool False)
      \<and> (cannot_convert (or_else (field obj ''healthScore'') (JNum 50))
           \<or> cannot_convert (or_else (field obj ''nextPhotoDays'') (JNum 4))))"
proof -
  have conv_throws: "(\<exists>e. ToNumber conv v = Inl e) \<longleftrightarrow> cannot_convert v" for v
    by (cases v) auto
  have conv_ok: "(\<exists>n. ToNumber conv v = Inr n) \<longleftrightarrow> \<not> cannot_convert v" for v
    by (cases v) auto
  show ?thesis
  proof (cases "\<not> truthy (field obj ''parsed'') \<and> field obj ''parsed'' \<noteq> Some (JBool False)")
    case False
    then show ?thesis by (auto simp: formatAnalysisForStorage_def)
  next
    case True
    show ?thesis
    proof (cases "ToNumber conv (or_else (field obj ''healthScore'') (JNum 50))")
      case (Inl e)
      with True conv_throws [of "or_else (field obj ''healthScore'') (JNum 50)"] show ?thesis
        by (auto simp: formatAnalysisForStorage_def)
    next
      case h: (Inr h)
      with conv_ok [of "or_else (field obj ''healthScore'') (JNum 50)"]
      have nh: "\<not> cannot_convert (or_else (field obj ''healthScore'') (JNum 50))" by auto
      show ?thesis
      proof (cases "ToNumber conv (or_else (field obj ''nextPhotoDays'') (JNum 4))")
        case (Inl e)
        with True h nh conv_throws [of "or_else (field obj ''nextPhotoDays'') (JNum 4)"] show ?thesis
          by (auto simp: formatAnalysisForStorage_def)
      next
        case (Inr n)
        with conv_ok [of "or_else (field obj ''nextPhotoDays'') (JNum 4)"]
        have "\<not> cannot_convert (or_else (field obj ''nextPhotoDays'') (JNum 4))" by auto
        with True h nh Inr show ?thesis
          by (auto simp: formatAnalysisForStorage_def)
      qed
    qed
  qed
qed

lemma not_array_default:
  "\<forall>xs. v \<noteq> Some (JArr xs) \<Longrightarrow> (case v of Some (JArr xs) \<Rightarrow> xs | _ \<Rightarrow> dflt) = dflt"
  by (auto split: option.splits json.splits)

lemma formatAnalysisForStorage_recommendations:
  assumes res: "formatAnalysisForStorage conv obj d = Inr a"
    and na: "\<forall>xs. field obj ''recommendations'' \<noteq> Some (JArr xs)"
  shows "recommendations a =
       (if \<not> truthy (field obj ''parsed'') \<and> field obj ''parsed'' \<noteq> Some (JBool False)
        then [JStr ''Monitor plant growth''] else [JStr ''Manual review needed''])"
proof (cases "\<not> truthy (field obj ''parsed'') \<and> field obj ''parsed'' \<noteq> Some (JBool False)")
  case False
  with res have "a = unparsed obj"
    by (auto simp: formatAnalysisForStorage_def)
  with False show ?thesis
    by (simp add: unparsed_def)
next
  case True
  from res True obtain h n where
    "ToNumber conv (or_else (field obj ''healthScore'') (JNum 50)) = Inr h"
    "ToNumber conv (or_else (field obj ''nextPhotoDays'') (JNum 4)) = Inr n"
    by (auto simp: formatAnalysisForStorage_def split: sum.splits)
  with res True have "recommendations a =
      (case field obj ''recommendations'' of
         Some (JArr xs) \<Rightarrow> xs
       | _ \<Rightarrow> [JStr ''Monitor plant growth''])"
    by (auto simp: formatAnalysisForStorage_def)
  with True na show ?thesis
    by (simp add: not_array_default)
qed

text \<open>
  C10. When the object parsed from the extracted text has a property \<open>parsed\<close> that is
  \<open>true\<close> or \<open>false\<close>, \<open>formatAnalysisForStorage\<close> takes its fallback branch: the
  result is the record for unparsed responses (health score 50, growth stage
  \<open>unknown\<close>, the single issue "Unable to parse AI response"), not the record built
  from the object's properties.
\<close>

theorem parsed_field_gives_degraded_record:
  "jsonMatch s = Some m \<Longrightarrow> JSON_parse m = Inr obj \<Longrightarrow> field obj ''parsed'' = Some (JBool b) \<Longrightarrow>
     formatAnalysisForStorage conv obj d = Inr (unparsed obj)
     \<and> normalize_outcome JSON_parse conv now d (Inr (Some s)) = Inr (unparsed obj)
     \<and> healthScore (unparsed obj) = Num 50
     \<and> growthStage (unparsed obj) = JStr ''unknown''
     \<and> issues (unparsed obj) = [JStr ''Unable to parse AI response'']"
  by (cases b)
    (simp_all add: formatAnalysisForStorage_def normalize_outcome_def parseGeminiResponse_def
      try_catch_def unparsed_def)

theorem parsed_field_witness:
  "normalize_outcome (\<lambda>t. Inr [(''parsed'', JBool True), (''healthScore'', JNum 90)]) (\<lambda>v. NaN) 0 (Num 1)
      (Inr (Some ''{x}''))
     = Inr (unparsed [(''parsed'', JBool True), (''healthScore'', JNum 90)])
   \<and> healthScore (unparsed [(''parsed'', JBool True), (''healthScore'', JNum 90)]) = Num 50"
  using parsed_field_gives_degraded_record
    [of "''{x}''" "''{x}''" "\<lambda>t. Inr [(''parsed'', JBool True), (''healthScore'', JNum 90)]"
        "[(''parsed'', JBool True), (''healthScore'', JNum 90)]" True "\<lambda>v. NaN" "Num 1" 0]
  by (simp add: field_def)

text \<open>
  C9, as amended. When the \<open>recommendations\<close> property of the parsed object is not an
  array, the \<open>recommendations\<close> of the analysis returned for the text is
  \<open>["Manual review needed"]\<close> when the object's \<open>parsed\<close> property is truthy or
  \<open>false\<close>; otherwise \<open>["Upload photo again", "Check image quality"]\<close> when the
  conversion of \<open>healthScore\<close> or \<open>nextPhotoDays\<close> throws (the value is an object
  with an own \<open>toString\<close> property, or an array holding one), the error being caught by
  \<open>analyzeGrowthPhoto\<close>; and otherwise \<open>["Monitor plant growth"]\<close>. Whenever
  \<open>formatAnalysisForStorage\<close> itself returns, it returns the first or the last of these.
\<close>

theorem recommendations_default_when_not_array:
  "jsonMatch s = Some m \<Longrightarrow> JSON_parse m = Inr obj \<Longrightarrow>
   \<forall>xs. field obj ''recommendations'' \<noteq> Some (JArr xs) \<Longrightarrow>
     (\<exists>a. normalize_outcome JSON_parse conv now d (Inr (Some s)) = Inr a
        \<and> recommendations a =
            (if truthy (field obj ''parsed'') \<or> field obj ''parsed'' = Some (JBool False)
             then [JStr ''Manual review needed'']
             else if cannot_convert (or_else (field obj ''healthScore'') (JNum 50))
                     \<or> cannot_convert (or_else (field obj ''nextPhotoDays'') (JNum 4))
             then [JStr ''Upload photo again'', JStr ''Check image quality'']
             else [JStr ''Monitor plant growth'']))
     \<and> (formatAnalysisForStorage conv obj d = Inr a' \<longrightarrow>
          recommendations a' =
            (if truthy (field obj ''parsed'') \<or> field obj ''parsed'' = Some (JBool False)
             then [JStr ''Manual review needed''] else [JStr ''Monitor plant growth'']))"
proof -
  assume m: "jsonMatch s = Some m" and p: "JSON_parse m = Inr obj"
    and na: "\<forall>xs. field obj ''recommendations'' \<noteq> Some (JArr xs)"
  have norm: "normalize_outcome JSON_parse conv now d (Inr (Some s)) =
       (case formatAnalysisForStorage conv obj d of
          Inr a \<Rightarrow> Inr a
        | Inl e \<Rightarrow> Inr (unavailable now))"
    using m p by (rule normalize_outcome_parsed [where JSON_parse = JSON_parse])
  have second: "formatAnalysisForStorage conv obj d = Inr a' \<longrightarrow>
          recommendations a' =
            (if truthy (field obj ''parsed'') \<or> field obj ''parsed'' = Some (JBool False)
             then [JStr ''Manual review needed''] else [JStr ''Monitor plant growth''])"
    using formatAnalysisForStorage_recommendations [OF _ na, of conv d a'] by auto
  show ?thesis
  proof (cases "formatAnalysisForStorage conv obj d")
    case (Inl e)
    then have thrown: "\<not> truthy (field obj ''parsed'') \<and> field obj ''parsed'' \<noteq> Some (JBool False)
      \<and> (cannot_convert (or_else (field obj ''healthScore'') (JNum 50))
           \<or> cannot_convert (or_else (field obj ''nextPhotoDays'') (JNum 4)))"
      using formatAnalysisForStorage_throws_iff [of conv obj d] by blast
    from Inl norm have "normalize_outcome JSON_parse conv now d (Inr (Some s)) = Inr (unavailable now)"
      by simp
    moreover have "recommendations (unavailable now)
        = [JStr ''Upload photo again'', JStr ''Check image quality'']"
      by (simp add: unavailable_def)
    ultimately show ?thesis using thrown second by auto
  next
    case (Inr a)
    then have ok: "\<not> (\<not> truthy (field obj ''parsed'') \<and> field obj ''parsed'' \<noteq> Some (JBool False)
      \<and> (cannot_convert (or_else (field obj ''healthScore'') (JNum 50))
           \<or> cannot_convert (or_else (field obj ''nextPhotoDays'') (JNum 4))))"
      using formatAnalysisForStorage_throws_iff [of conv obj d] by auto
    from Inr norm have "normalize_outcome JSON_parse conv now d (Inr (Some s)) = Inr a"
      by simp
    moreover note formatAnalysisForStorage_recommendations [OF Inr na]
    ultimately show ?thesis using ok second by auto
  qed
qed

theorem recommendations_default_witness:
  "(\<exists>a. normalize_outcome (\<lambda>t. Inr [(''recommendations'', JStr ''water daily'')]) (\<lambda>v. NaN) 0 (Num 1)
          (Inr (Some ''{r}'')) = Inr a
        \<and> recommendations a = [JStr ''Monitor plant growth''])
   \<and> (\<exists>a. normalize_outcome
          (\<lambda>t. Inr [(''recommendations'', JStr ''water daily''),
                     (''healthScore'', JObj [(''toString'', JNum 1)])]) (\<lambda>v. NaN) 0 (Num 1)
          (Inr (Some ''{r}'')) = Inr a
        \<and> recommendations a = [JStr ''Upload photo again'', JStr ''Check image quality''])"
  using
    recommendations_default_when_not_array
      [where s = "''{r}''" and m = "''{r}''"
         and JSON_parse = "\<lambda>t. Inr [(''recommendations'', JStr ''water daily'')]"
         and obj = "[(''recommendations'', JStr ''water daily'')]"
         and conv = "\<lambda>v. NaN" and now = 0 and d = "Num 1"]
    recommendations_default_when_not_array
      [where s = "''{r}''" and m = "''{r}''"
         and JSON_parse = "\<lambda>t. Inr [(''recommendations'', JStr ''water daily''),
                     (''healthScore'', JObj [(''toString'', JNum 1)])]"
         and obj = "[(''recommendations'', JStr ''water daily''),
                     (''healthScore'', JObj [(''toString'', JNum 1)])]"
         and conv = "\<lambda>v. NaN" and now = 0 and d = "Num 1"]
  by (simp add: field_def or_else_def)

text \<open>
  C9, as stated, fails: a \<open>recommendations\<close> property that is a string gives a
  non-empty list.
\<close>

theorem recommendations_not_empty_counterexample:
  "field [(''recommendations'', JStr ''water daily'')] ''recommendations'' = Some (JStr ''water daily'')
   \<and> map_sum id recommendations
        (formatAnalysisForStorage (\<lambda>v. NaN) [(''recommendations'', JStr ''water daily'')] (Num 1))
       = Inr [JStr ''Monitor plant growth'']
   \<and> map_sum id recommendations
        (normalize_outcome (\<lambda>t. Inr [(''recommendations'', JStr ''water daily'')]) (\<lambda>v. NaN) 0 (Num 1)
          (Inr (Some ''{r}'')))
       \<noteq> Inr []"
  by (simp add: formatAnalysisForStorage_def field_def or_else_def normalize_outcome_def
      try_catch_def parseGeminiResponse_def)

text \<open>
  The health score of the validated branch on the inputs where it is as intended: a
  number other than 0 is clamped into the range from 0 to 100 (when the conversion of
  \<open>nextPhotoDays\<close> does not throw), and a missing one becomes 50. And an input on
  which the conversion of the health score throws.
\<close>

lemma healthScore_clamped_when_not_zero:
  "field obj ''healthScore'' = Some (JNum q) \<Longrightarrow> q \<noteq> 0 \<Longrightarrow>
   \<not> truthy (field obj ''parsed'') \<Longrightarrow> field obj ''parsed'' \<noteq> Some (JBool False) \<Longrightarrow>
     map_sum id healthScore (formatAnalysisForStorage conv obj d)
       = (if cannot_convert (or_else (field obj ''nextPhotoDays'') (JNum 4))
          then Inl (TypeError ''Cannot convert object to primitive value'')
          else Inr (Num (max 0 (min 100 q))))"
  by (cases "or_else (field obj ''nextPhotoDays'') (JNum 4)")
    (simp_all add: formatAnalysisForStorage_def or_else_def)

lemma healthScore_default_when_missing:
  "field obj ''healthScore'' = None \<Longrightarrow> formatAnalysisForStorage conv obj d = Inr a \<Longrightarrow>
     healthScore a = Num 50"
  by (auto simp: formatAnalysisForStorage_def or_else_def unparsed_def split: if_splits sum.splits)

lemma healthScore_object_with_toString_throws:
  "formatAnalysisForStorage conv [(''healthScore'', JObj [(''toString'', JNum 1)])] d
     = Inl (TypeError ''Cannot convert object to primitive value'')"
  by (simp add: formatAnalysisForStorage_def field_def or_else_def)

text \<open>
  C3 at the inputs where the code departs from it. A \<open>healthScore\<close> of 0 is falsy, so
  \<open>analysis.healthScore || 50\<close> replaces it by 50 before the clamp: 0 does not remain
  0. A \<open>healthScore\<close> that is an object is truthy and converts to \<open>NaN\<close>, which the
  clamp returns unchanged: the result is neither the default 50 nor in the range.
\<close>

theorem healthScore_zero_becomes_default:
  "map_sum id healthScore (formatAnalysisForStorage conv [(''healthScore'', JNum 0)] d) = Inr (Num 50)
   \<and> map_sum id healthScore (formatAnalysisForStorage conv [(''healthScore'', JObj [])] d) = Inr NaN"
  by (simp add: formatAnalysisForStorage_def field_def or_else_def)

section \<open>The attempts of one call\<close>

lemma attempt_loop_first_fails:
  "up (posts (trace w)) = Inl e \<Longrightarrow>
     attempt_loop up m k p 0 lastError w =
       attempt_loop up m k p 1 (Some e) (w\<lparr>trace := trace w @ [Post m k p, Sleep 1000]\<rparr>)"
  by (subst attempt_loop.simps) (simp add: axios_post_def setTimeout_def)

lemma attempt_loop_second_fails:
  "up (posts (trace w)) = Inl e \<Longrightarrow>
     attempt_loop up m k p 1 lastError w =
       attempt_loop up m k p 2 (Some e) (w\<lparr>trace := trace w @ [Post m k p, Sleep 2000]\<rparr>)"
  by (subst attempt_loop.simps) (simp add: axios_post_def setTimeout_def numeral_2_eq_2)

lemma attempt_loop_third_fails:
  "up (posts (trace w)) = Inl e \<Longrightarrow>
     attempt_loop up m k p 2 lastError w =
       attempt_loop up m k p 3 (Some e) (w\<lparr>trace := trace w @ [Post m k p]\<rparr>)"
  by (subst attempt_loop.simps) (simp add: axios_post_def setTimeout_def numeral_3_eq_3)

lemma attempt_loop_exhausted:
  "attempt_loop up m k p 3 (Some e) w =
     (Inl (Error (''Gemini API failed after 3 attempts: '' @ message e)), w)"
  by (subst attempt_loop.simps) simp

lemma attempt_loop_all_fail:
  assumes fail: "\<forall>n. up n = Inl (err n)"
  shows "attempt_loop up m k p 0 None w =
     (Inl (Error (''Gemini API failed after 3 attempts: '' @ message (err (posts (trace w) + 2)))),
      w\<lparr>trace := trace w @ [Post m k p, Sleep 1000, Post m k p, Sleep 2000, Post m k p]\<rparr>)"
proof -
  let ?w1 = "w\<lparr>trace := trace w @ [Post m k p, Sleep 1000]\<rparr>"
  let ?w2 = "w\<lparr>trace := trace w @ [Post m k p, Sleep 1000, Post m k p, Sleep 2000]\<rparr>"
  let ?w3 = "w\<lparr>trace := trace w @ [Post m k p, Sleep 1000, Post m k p, Sleep 2000, Post m k p]\<rparr>"
  have f0: "up (posts (trace w)) = Inl (err (posts (trace w)))"
    and f1: "up (posts (trace ?w1)) = Inl (err (posts (trace w) + 1))"
    and f2: "up (posts (trace ?w2)) = Inl (err (posts (trace w) + 2))"
    using fail by (simp_all add: posts_def)
  have "attempt_loop up m k p 0 None w
      = attempt_loop up m k p 1 (Some (err (posts (trace w)))) ?w1"
    using f0 by (rule attempt_loop_first_fails [where up = up and w = w])
  also have "\<dots> = attempt_loop up m k p 2 (Some (err (posts (trace w) + 1))) ?w2"
    using f1 attempt_loop_second_fails [where up = up and w = ?w1 and m = m and k = k and p = p]
    by simp
  also have "\<dots> = attempt_loop up m k p 3 (Some (err (posts (trace w) + 2))) ?w3"
    using f2 attempt_loop_third_fails [where up = up and w = ?w2 and m = m and k = k and p = p]
    by simp
  finally show ?thesis
    by (simp only: attempt_loop_exhausted)
qed

lemma attempt_loop_frame:
  "attempt_loop up m k p attempt lastError w = (r, w') \<Longrightarrow>
     apiKeys w' = apiKeys w \<and> rotationCounter w' = rotationCounter w
     \<and> GEMINI_API_KEY w' = GEMINI_API_KEY w
     \<and> (\<exists>n. n \<le> 3 - attempt \<and> (attempt < 3 \<longrightarrow> 1 \<le> n)
            \<and> filter is_post (trace w') = filter is_post (trace w) @ replicate n (Post m k p))"
proof (induction up m k p attempt lastError w arbitrary: r w' rule: attempt_loop.induct)
  case (1 up m k p attempt lastError w)
  let ?r0 = "axios_post up m k p w"
  show ?case
  proof (cases "attempt < 3")
    case False
    with "1.prems" have "w' = w"
      by (subst (asm) attempt_loop.simps) (auto split: option.splits)
    with False show ?thesis by simp
  next
    case True
    show ?thesis
    proof (cases "fst ?r0")
      case (Inr t)
      with True "1.prems" have "w' = snd ?r0"
        by (subst (asm) attempt_loop.simps) auto
      then have "apiKeys w' = apiKeys w \<and> rotationCounter w' = rotationCounter w
          \<and> GEMINI_API_KEY w' = GEMINI_API_KEY w
          \<and> filter is_post (trace w') = filter is_post (trace w) @ replicate 1 (Post m k p)"
        by (simp add: axios_post_def)
      moreover from True have "(1::nat) \<le> 3 - attempt" by simp
      ultimately show ?thesis by blast
    next
      case (Inl e)
      let ?w2 = "if attempt < 2 then setTimeout (1000 * (attempt + 1)) (snd ?r0) else snd ?r0"
      from True Inl "1.prems" have rec: "attempt_loop up m k p (attempt + 1) (Some e) ?w2 = (r, w')"
        by (subst (asm) attempt_loop.simps) (simp add: Let_def)
      from "1.IH" [OF True refl Inl rec] obtain n where
        frame: "apiKeys w' = apiKeys ?w2" "rotationCounter w' = rotationCounter ?w2"
          "GEMINI_API_KEY w' = GEMINI_API_KEY ?w2"
        and n: "n \<le> 3 - (attempt + 1)"
        and tr: "filter is_post (trace w') = filter is_post (trace ?w2) @ replicate n (Post m k p)"
        by blast
      have w2: "apiKeys ?w2 = apiKeys w" "rotationCounter ?w2 = rotationCounter w"
        "GEMINI_API_KEY ?w2 = GEMINI_API_KEY w"
        "filter is_post (trace ?w2) = filter is_post (trace w) @ [Post m k p]"
        by (simp_all add: axios_post_def setTimeout_def)
      from tr w2 have "filter is_post (trace w') = filter is_post (trace w) @ replicate (Suc n) (Post m k p)"
        by simp
      moreover from n True have "Suc n \<le> 3 - attempt" by simp
      ultimately show ?thesis using frame w2 by auto
    qed
  qed
qed

text \<open>
  C2, as amended. \<open>analyzeWithGemini\<close> makes between one and three requests, all of them
  with the one key it read from \<open>GEMINI_API_KEY\<close> before its loop, and with the same
  model and payload; it leaves the key pool and the rotation counter as they were.
  \<open>callGeminiAPI\<close>, which takes its key from \<open>getNextApiKey\<close>, makes a single request
  and so advances the rotation once per call (when the pool is not empty); it has no
  retry.
\<close>

theorem analyzeWithGemini_uses_one_key_callGeminiAPI_rotates:
  "(\<exists>n m p. 1 \<le> n \<and> n \<le> 3
      \<and> filter is_post (trace (snd (analyzeWithGemini up prompt img opts w)))
          = filter is_post (trace w) @ replicate n (Post m (GEMINI_API_KEY w) p))
   \<and> apiKeys (snd (analyzeWithGemini up prompt img opts w)) = apiKeys w
   \<and> rotationCounter (snd (analyzeWithGemini up prompt img opts w)) = rotationCounter w
   \<and> (\<exists>p. trace (snd (callGeminiAPI up prompt img w))
          = trace w @ [Post ''gemini-2.5-flash'' (fst (getNextApiKey w)) p])
   \<and> rotationCounter (snd (callGeminiAPI up prompt img w))
       = (if apiKeys w = [] then rotationCounter w else rotationCounter w + 1)"
proof -
  obtain r w' where res: "analyzeWithGemini up prompt img opts w = (r, w')"
    by (cases "analyzeWithGemini up prompt img opts w")
  then obtain m p where "attempt_loop up m (GEMINI_API_KEY w) p 0 None w = (r, w')"
    by (simp add: analyzeWithGemini_def Let_def)
  from attempt_loop_frame [OF this] obtain n where
    "apiKeys w' = apiKeys w" "rotationCounter w' = rotationCounter w"
    "n \<le> 3" "1 \<le> n"
    "filter is_post (trace w') = filter is_post (trace w) @ replicate n (Post m (GEMINI_API_KEY w) p)"
    by auto
  with res have
    "(\<exists>n m p. 1 \<le> n \<and> n \<le> 3
      \<and> filter is_post (trace (snd (analyzeWithGemini up prompt img opts w)))
          = filter is_post (trace w) @ replicate n (Post m (GEMINI_API_KEY w) p))"
    "apiKeys (snd (analyzeWithGemini up prompt img opts w)) = apiKeys w"
    "rotationCounter (snd (analyzeWithGemini up prompt img opts w)) = rotationCounter w"
    by auto
  moreover have "\<exists>p. trace (snd (callGeminiAPI up prompt img w))
          = trace w @ [Post ''gemini-2.5-flash'' (fst (getNextApiKey w)) p]"
    by (simp add: callGeminiAPI_def getNextApiKey_def axios_post_def Let_def)
  moreover have "rotationCounter (snd (callGeminiAPI up prompt img w))
       = (if apiKeys w = [] then rotationCounter w else rotationCounter w + 1)"
    by (simp add: callGeminiAPI_def getNextApiKey_def axios_post_def Let_def)
  ultimately show ?thesis by blast
qed

text \<open>
  C2, as stated, fails: with an upstream that always fails and a pool of two keys,
  \<open>analyzeWithGemini\<close> makes its three attempts with the key of \<open>GEMINI_API_KEY\<close> and
  the rotation counter is still 0 afterwards.
\<close>

theorem retries_do_not_advance_rotation:
  "rotationCounter (snd (analyzeWithGemini (\<lambda>n. Inl (Error ''timeout'')) ''prompt'' None
       \<lparr>opt_temperature = None, opt_maxTokens = None, opt_model = None\<rparr>
       \<lparr>GEMINI_API_KEY = Some ''legacy'', apiKeys = [''key-one'', ''key-two''],
         rotationCounter = 0, trace = []\<rparr>)) = 0
   \<and> filter is_post (trace (snd (analyzeWithGemini (\<lambda>n. Inl (Error ''timeout'')) ''prompt'' None
       \<lparr>opt_temperature = None, opt_maxTokens = None, opt_model = None\<rparr>
       \<lparr>GEMINI_API_KEY = Some ''legacy'', apiKeys = [''key-one'', ''key-two''],
         rotationCounter = 0, trace = []\<rparr>)))
     = replicate 3 (Post ''gemini-2.0-flash'' (Some ''legacy'')
         \<lparr>parts_text = ''prompt'', parts_inlineData = None, temperature = 4 / 10,
           topK = 32, topP = 1, maxOutputTokens = 4096\<rparr>)"
proof -
  have "\<forall>n. (\<lambda>n. Inl (Error ''timeout'') :: error + string option) n = Inl ((\<lambda>n. Error ''timeout'') n)"
    by simp
  from attempt_loop_all_fail [OF this] show ?thesis
    by (simp add: analyzeWithGemini_def image_part_def numeral_3_eq_3 Let_def)
qed

text \<open>
  C8. When every request fails, \<open>analyzeWithGemini\<close> makes exactly three requests, waits
  1000 ms before the second and 2000 ms before the third, and then throws an error whose
  message ends with the message of the third failure. \<open>analyzeGrowthPhoto\<close> catches it
  and returns the record of its \<open>catch\<close> block: health score 50, growth stage
  \<open>unknown\<close>, the issue "Analysis failed - manual review needed", the observations
  "AI analysis unavailable", the recommendations "Upload photo again" and "Check image
  quality", 3 days, \<open>important\<close>, and the date three days after the clock reading.
\<close>

theorem all_attempts_fail:
  "\<forall>n. up n = Inl (err n) \<Longrightarrow>
     (let ev = Post (case opt_model opts of Some m \<Rightarrow> m | None \<Rightarrow> ''gemini-2.0-flash'')
                 (GEMINI_API_KEY w)
                 \<lparr>parts_text = prompt, parts_inlineData = image_part img,
                   temperature = (case opt_temperature opts of Some t \<Rightarrow> t | None \<Rightarrow> 4 / 10),
                   topK = 32, topP = 1,
                   maxOutputTokens = (case opt_maxTokens opts of Some n \<Rightarrow> n | None \<Rightarrow> 4096)\<rparr>
      in analyzeWithGemini up prompt img opts w =
           (Inl (Error (''Gemini API failed after 3 attempts: ''
                          @ message (err (posts (trace w) + 2)))),
            w\<lparr>trace := trace w @ [ev, Sleep 1000, ev, Sleep 2000, ev]\<rparr>))
     \<and> fst (analyzeGrowthPhoto JSON_parse conv up now bp cropId img prev info w)
         = Inr \<lparr>nextPhotoDate =
                  (if \<bar>now + 259200000\<bar> \<le> 8640000000000000
                   then Date (now + 259200000) else InvalidDate),
                nextPhotoDays = Num 3, urgency = ''important'',
                healthScore = Num 50, growthStage = JStr ''unknown'',
                issues = [JStr ''Analysis failed - manual review needed''],
                observations = JStr ''AI analysis unavailable'',
                recommendations = [JStr ''Upload photo again'', JStr ''Check image quality'']\<rparr>
     \<and> posts (trace (snd (analyzeGrowthPhoto JSON_parse conv up now bp cropId img prev info w)))
         = posts (trace w) + 3"
proof -
  assume fail: "\<forall>n. up n = Inl (err n)"
  note loop = attempt_loop_all_fail [OF fail]
  have call: "analyzeWithGemini up q img os w =
      (Inl (Error (''Gemini API failed after 3 attempts: '' @ message (err (posts (trace w) + 2)))),
       w\<lparr>trace := trace w @
           [Post (case opt_model os of Some m \<Rightarrow> m | None \<Rightarrow> ''gemini-2.0-flash'')
                 (GEMINI_API_KEY w)
                 \<lparr>parts_text = q, parts_inlineData = image_part img,
                   temperature = (case opt_temperature os of Some t \<Rightarrow> t | None \<Rightarrow> 4 / 10),
                   topK = 32, topP = 1,
                   maxOutputTokens = (case opt_maxTokens os of Some n \<Rightarrow> n | None \<Rightarrow> 4096)\<rparr>,
            Sleep 1000,
            Post (case opt_model os of Some m \<Rightarrow> m | None \<Rightarrow> ''gemini-2.0-flash'')
                 (GEMINI_API_KEY w)
                 \<lparr>parts_text = q, parts_inlineData = image_part img,
                   temperature = (case opt_temperature os of Some t \<Rightarrow> t | None \<Rightarrow> 4 / 10),
                   topK = 32, topP = 1,
                   maxOutputTokens = (case opt_maxTokens os of Some n \<Rightarrow> n | None \<Rightarrow> 4096)\<rparr>,
            Sleep 2000,
            Post (case opt_model os of Some m \<Rightarrow> m | None \<Rightarrow> ''gemini-2.0-flash'')
                 (GEMINI_API_KEY w)
                 \<lparr>parts_text = q, parts_inlineData = image_part img,
                   temperature = (case opt_temperature os of Some t \<Rightarrow> t | None \<Rightarrow> 4 / 10),
                   topK = 32, topP = 1,
                   maxOutputTokens = (case opt_maxTokens os of Some n \<Rightarrow> n | None \<Rightarrow> 4096)\<rparr>]\<rparr>)"
    for q os
    unfolding analyzeWithGemini_def Let_def by (rule loop)
  have absorbed: "normalize_outcome JSON_parse conv now d (Inl e) = Inr \<lparr>nextPhotoDate =
                  (if \<bar>now + 259200000\<bar> \<le> 8640000000000000
                   then Date (now + 259200000) else InvalidDate),
                nextPhotoDays = Num 3, urgency = ''important'',
                healthScore = Num 50, growthStage = JStr ''unknown'',
                issues = [JStr ''Analysis failed - manual review needed''],
                observations = JStr ''AI analysis unavailable'',
                recommendations = [JStr ''Upload photo again'', JStr ''Check image quality'']\<rparr>" for d e
    by (simp add: normalize_outcome_def try_catch_def unavailable_record)
  have "fst (analyzeGrowthPhoto JSON_parse conv up now bp cropId img prev info w)
         = Inr \<lparr>nextPhotoDate =
                  (if \<bar>now + 259200000\<bar> \<le> 8640000000000000
                   then Date (now + 259200000) else InvalidDate),
                nextPhotoDays = Num 3, urgency = ''important'',
                healthScore = Num 50, growthStage = JStr ''unknown'',
                issues = [JStr ''Analysis failed - manual review needed''],
                observations = JStr ''AI analysis unavailable'',
                recommendations = [JStr ''Upload photo again'', JStr ''Check image quality'']\<rparr>"
    unfolding analyzeGrowthPhoto_def Let_def
    by (simp only: call fst_conv absorbed)
  moreover have "posts (trace (snd (analyzeGrowthPhoto JSON_parse conv up now bp cropId img prev info w)))
         = posts (trace w) + 3"
    unfolding analyzeGrowthPhoto_def Let_def
    by (simp only: call snd_conv) (simp add: posts_def)
  moreover have "(let ev = Post (case opt_model opts of Some m \<Rightarrow> m | None \<Rightarrow> ''gemini-2.0-flash'')
                 (GEMINI_API_KEY w)
                 \<lparr>parts_text = prompt, parts_inlineData = image_part img,
                   temperature = (case opt_temperature opts of Some t \<Rightarrow> t | None \<Rightarrow> 4 / 10),
                   topK = 32, topP = 1,
                   maxOutputTokens = (case opt_maxTokens opts of Some n \<Rightarrow> n | None \<Rightarrow> 4096)\<rparr>
      in analyzeWithGemini up prompt img opts w =
           (Inl (Error (''Gemini API failed after 3 attempts: ''
                          @ message (err (posts (trace w) + 2)))),
            w\<lparr>trace := trace w @ [ev, Sleep 1000, ev, Sleep 2000, ev]\<rparr>))"
    unfolding Let_def by (rule call)
  ultimately show ?thesis by blast
qed

theorem all_attempts_fail_witness:
  "analyzeWithGemini (\<lambda>n. Inl (Error ''timeout'')) ''prompt'' None
       \<lparr>opt_temperature = None, opt_maxTokens = None, opt_model = None\<rparr>
       \<lparr>GEMINI_API_KEY = Some ''legacy'', apiKeys = [], rotationCounter = 0, trace = []\<rparr>
     = (Inl (Error ''Gemini API failed after 3 attempts: timeout''),
        \<lparr>GEMINI_API_KEY = Some ''legacy'', apiKeys = [], rotationCounter = 0,
          trace =
            [Post ''gemini-2.0-flash'' (Some ''legacy'')
               \<lparr>parts_text = ''prompt'', parts_inlineData = None, temperature = 4 / 10,
                 topK = 32, topP = 1, maxOutputTokens = 4096\<rparr>,
             Sleep 1000,
             Post ''gemini-2.0-flash'' (Some ''legacy'')
               \<lparr>parts_text = ''prompt'', parts_inlineData = None, temperature = 4 / 10,
                 topK = 32, topP = 1, maxOutputTokens = 4096\<rparr>,
             Sleep 2000,
             Post ''gemini-2.0-flash'' (Some ''legacy'')
               \<lparr>parts_text = ''prompt'', parts_inlineData = None, temperature = 4 / 10,
                 topK = 32, topP = 1, maxOutputTokens = 4096\<rparr>]\<rparr>)
   \<and> fst (analyzeGrowthPhoto (\<lambda>t. Inr []) (\<lambda>v. NaN) (\<lambda>n. Inl (Error ''timeout'')) 0
            (\<lambda>c d s l. ''prompt'') ''crop'' None None
            \<lparr>cropType = None, dayNumber = None, language = None\<rparr>
            \<lparr>GEMINI_API_KEY = Some ''legacy'', apiKeys = [], rotationCounter = 0, trace = []\<rparr>)
       = Inr \<lparr>nextPhotoDate =
                  Date 259200000,
                nextPhotoDays = Num 3, urgency = ''important'',
                healthScore = Num 50, growthStage = JStr ''unknown'',
                issues = [JStr ''Analysis failed - manual review needed''],
                observations = JStr ''AI analysis unavailable'',
                recommendations = [JStr ''Upload photo again'', JStr ''Check image quality'']\<rparr>"
  using all_attempts_fail
    [where up = "\<lambda>n. Inl (Error ''timeout'')" and err = "\<lambda>n. Error ''timeout''"
       and opts = "\<lparr>opt_temperature = None, opt_maxTokens = None, opt_model = None\<rparr>"
       and w = "\<lparr>GEMINI_API_KEY = Some ''legacy'', apiKeys = [], rotationCounter = 0, trace = []\<rparr>"
       and prompt = "''prompt''" and img = None and JSON_parse = "\<lambda>t. Inr []"
       and conv = "\<lambda>v. NaN" and now = 0 and bp = "\<lambda>c d s l. ''prompt''"
       and cropId = "''crop''" and prev = None
       and info = "\<lparr>cropType = None, dayNumber = None, language = None\<rparr>"]
  by (simp add: image_part_def Let_def)

section \<open>Normalization and scheduling\<close>





text \<open>
  Runs of \<open>calculateNextPhotoDate\<close> on a host in UTC, at 22:13:20 on 14 November 2023,
  with sums that are exact: a healthy plant in flowering (5 days become 4, routine); an
  unhealthy one in germination with a pest issue (4 days become 3, then at most 2, then
  3 again, important). An issue that is not a string, on which \<open>toLowerCase\<close> throws.
  A host whose clock is put forward an hour within the four days: the date is an hour
  less than four days later. And a day count just above 1 whose sum with the stage
  adjustment rounds to 2: the urgency is decided on the rounded sum.
\<close>

lemma DateFromTime_14_Nov_2023: "DateFromTime 1700000000000 = 14"
  unfolding DateFromTime_def Day_def msPerDay_def Let_def by simp

lemma DateFromTime_15_Nov_2023: "DateFromTime 1700086400000 = 15"
  unfolding DateFromTime_def Day_def msPerDay_def Let_def by simp

lemma scenario_healthy_flowering:
  "calculateNextPhotoDate (\<lambda>x. x) (\<lambda>t u. 0) 1700000000000
     \<lparr>nextPhotoDate = Null, nextPhotoDays = Num 5, urgency = ''routine'',
       healthScore = Num 90, growthStage = JStr ''flowering'', issues = [],
       observations = JStr ''healthy'', recommendations = []\<rparr> ''tomato'' ''flowering''
     = Inr \<lparr>nextPhotoDate = Date 1700345600000, nextPhotoDays = Num 4, urgency = ''routine''\<rparr>"
  by (simp add: calculateNextPhotoDate_def Let_def less_number_def le_number_def stageAdjustments_def
        setDate_def getDate_def LocalTime_def UTC_def Day_def TimeWithinDay_def msPerDay_def
        ToIntegerOrInfinity_def TimeClip_def DateFromTime_14_Nov_2023)

lemma scenario_pest_germination:
  "calculateNextPhotoDate (\<lambda>x. x) (\<lambda>t u. 0) 1700000000000
     \<lparr>nextPhotoDate = Null, nextPhotoDays = Num 4, urgency = ''routine'',
       healthScore = Num 60, growthStage = JStr ''germination'',
       issues = [JStr ''Pest damage observed''],
       observations = JStr ''holes in leaves'', recommendations = []\<rparr> ''tomato'' ''germination''
     = Inr \<lparr>nextPhotoDate = Date 1700259200000, nextPhotoDays = Num 3, urgency = ''important''\<rparr>"
  by (simp add: calculateNextPhotoDate_def Let_def less_number_def le_number_def stageAdjustments_def
        setDate_def getDate_def LocalTime_def UTC_def Day_def TimeWithinDay_def msPerDay_def
        ToIntegerOrInfinity_def TimeClip_def DateFromTime_14_Nov_2023 toLowerCase_def toLowerCase_char_def)

lemma issue_that_is_not_a_string_throws:
  "calculateNextPhotoDate rnd tza now
     \<lparr>nextPhotoDate = Null, nextPhotoDays = Num 4, urgency = ''routine'',
       healthScore = Num 60, growthStage = JStr ''germination'',
       issues = [JNum 1],
       observations = JStr ''holes in leaves'', recommendations = []\<rparr> ''tomato'' ''germination''
     = Inl (TypeError ''issue.toLowerCase is not a function'')"
  by (simp add: calculateNextPhotoDate_def Let_def)

lemma clock_change_moves_the_date_by_an_hour:
  "calculateNextPhotoDate (\<lambda>x. x) (\<lambda>t u. if t < 1700100000000 then 0 else 3600000) 1700000000000
     \<lparr>nextPhotoDate = Null, nextPhotoDays = Num 5, urgency = ''routine'',
       healthScore = Num 90, growthStage = JStr ''flowering'', issues = [],
       observations = JStr ''healthy'', recommendations = []\<rparr> ''tomato'' ''flowering''
     = Inr \<lparr>nextPhotoDate = Date 1700342000000, nextPhotoDays = Num 4, urgency = ''routine''\<rparr>"
  by (simp add: calculateNextPhotoDate_def Let_def less_number_def le_number_def stageAdjustments_def
        setDate_def getDate_def LocalTime_def UTC_def Day_def TimeWithinDay_def msPerDay_def
        ToIntegerOrInfinity_def TimeClip_def DateFromTime_14_Nov_2023)

lemma rounded_sum_decides_urgency:
  "rnd (1 + 1 / 2 ^ 52 + 1) = 2 \<Longrightarrow>
     map_sum id (\<lambda>s. (nextPhotoDays s, urgency s))
       (calculateNextPhotoDate rnd tza now
          \<lparr>nextPhotoDate = Null, nextPhotoDays = Num (1 + 1 / 2 ^ 52), urgency = ''routine'',
            healthScore = Num 90, growthStage = JStr ''germination'', issues = [],
            observations = JStr ''healthy'', recommendations = []\<rparr> ''tomato'' ''germination'')
     = Inr (Num 2, ''critical'')"
  by (simp add: calculateNextPhotoDate_def Let_def less_number_def le_number_def
      stageAdjustments_def)

text \<open>
  C5, as amended. For the same analysis, crop type and growth stage,
  \<open>calculateNextPhotoDate\<close> gives the same \<open>nextPhotoDays\<close> and \<open>urgency\<close>, or throws
  the same error, whatever the clock reads and whatever the time zone of the host.
  \<open>nextPhotoDate\<close> depends on the clock as well: it is the date that
  \<open>setDate(getDate() + nextPhotoDays)\<close> leaves in a \<open>Date\<close> made at the clock reading
  of the call.
\<close>

theorem schedule_days_and_urgency_ignore_the_clock:
  "map_sum id (\<lambda>s. (nextPhotoDays s, urgency s)) (calculateNextPhotoDate rnd tza1 now1 a c g)
     = map_sum id (\<lambda>s. (nextPhotoDays s, urgency s)) (calculateNextPhotoDate rnd tza2 now2 a c g)
   \<and> (calculateNextPhotoDate rnd tza1 now1 a c g = Inr s \<longrightarrow>
        nextPhotoDate s
          = setDate tza1 now1 (plus_number rnd (getDate tza1 now1) (nextPhotoDays s)))"
  by (cases "if issues a = [] then Inr False else hasCriticalIssues (issues a)")
    (auto simp: calculateNextPhotoDate_def Let_def split del: if_split)

theorem schedule_days_and_urgency_witness:
  "calculateNextPhotoDate (\<lambda>x. x) (\<lambda>t u. 0) 1700000000000
     \<lparr>nextPhotoDate = Null, nextPhotoDays = Num 5, urgency = ''routine'',
       healthScore = Num 90, growthStage = JStr ''flowering'', issues = [],
       observations = JStr ''healthy'', recommendations = []\<rparr> ''tomato'' ''flowering''
     = Inr \<lparr>nextPhotoDate = Date 1700345600000, nextPhotoDays = Num 4, urgency = ''routine''\<rparr>
   \<and> calculateNextPhotoDate (\<lambda>x. x) (\<lambda>t u. 0) 1700086400000
     \<lparr>nextPhotoDate = Null, nextPhotoDays = Num 5, urgency = ''routine'',
       healthScore = Num 90, growthStage = JStr ''flowering'', issues = [],
       observations = JStr ''healthy'', recommendations = []\<rparr> ''tomato'' ''flowering''
     = Inr \<lparr>nextPhotoDate = Date 1700432000000, nextPhotoDays = Num 4, urgency = ''routine''\<rparr>
   \<and> setDate (\<lambda>t u. 0) 1700000000000
         (plus_number (\<lambda>x. x) (getDate (\<lambda>t u. 0) 1700000000000) (Num 4))
       = Date 1700345600000"
proof -
  have v1: "calculateNextPhotoDate (\<lambda>x. x) (\<lambda>t u. 0) 1700000000000
     \<lparr>nextPhotoDate = Null, nextPhotoDays = Num 5, urgency = ''routine'',
       healthScore = Num 90, growthStage = JStr ''flowering'', issues = [],
       observations = JStr ''healthy'', recommendations = []\<rparr> ''tomato'' ''flowering''
     = Inr \<lparr>nextPhotoDate = Date 1700345600000, nextPhotoDays = Num 4, urgency = ''routine''\<rparr>"
    by (simp add: calculateNextPhotoDate_def Let_def less_number_def le_number_def stageAdjustments_def
        setDate_def getDate_def LocalTime_def UTC_def Day_def TimeWithinDay_def msPerDay_def
        ToIntegerOrInfinity_def TimeClip_def DateFromTime_14_Nov_2023)
  have v2: "calculateNextPhotoDate (\<lambda>x. x) (\<lambda>t u. 0) 1700086400000
     \<lparr>nextPhotoDate = Null, nextPhotoDays = Num 5, urgency = ''routine'',
       healthScore = Num 90, growthStage = JStr ''flowering'', issues = [],
       observations = JStr ''healthy'', recommendations = []\<rparr> ''tomato'' ''flowering''
     = Inr \<lparr>nextPhotoDate = Date 1700432000000, nextPhotoDays = Num 4, urgency = ''routine''\<rparr>"
    by (simp add: calculateNextPhotoDate_def Let_def less_number_def le_number_def stageAdjustments_def
        setDate_def getDate_def LocalTime_def UTC_def Day_def TimeWithinDay_def msPerDay_def
        ToIntegerOrInfinity_def TimeClip_def DateFromTime_15_Nov_2023)
  from v1 v2 schedule_days_and_urgency_ignore_the_clock
    [where rnd = "\<lambda>x. x" and ?tza1.0 = "\<lambda>t u. 0" and ?tza2.0 = "\<lambda>t u. 0"
       and ?now1.0 = 1700000000000 and ?now2.0 = 1700086400000
       and a = "\<lparr>nextPhotoDate = Null, nextPhotoDays = Num 5, urgency = ''routine'',
       healthScore = Num 90, growthStage = JStr ''flowering'', issues = [],
       observations = JStr ''healthy'', recommendations = []\<rparr>"
       and c = "''tomato''" and g = "''flowering''"
       and s = "\<lparr>nextPhotoDate = Date 1700345600000, nextPhotoDays = Num 4, urgency = ''routine''\<rparr>"]
  show ?thesis by simp
qed

text \<open>
  C5, as stated, fails: two calls with the same arguments, a day apart, return different
  values of \<open>nextPhotoDate\<close>.
\<close>

theorem nextPhotoDate_depends_on_the_clock:
  "calculateNextPhotoDate (\<lambda>x. x) (\<lambda>t u. 0) 1700000000000
     \<lparr>nextPhotoDate = Null, nextPhotoDays = Num 5, urgency = ''routine'',
       healthScore = Num 90, growthStage = JStr ''flowering'', issues = [],
       observations = JStr ''healthy'', recommendations = []\<rparr> ''tomato'' ''flowering''
   \<noteq> calculateNextPhotoDate (\<lambda>x. x) (\<lambda>t u. 0) 1700086400000
     \<lparr>nextPhotoDate = Null, nextPhotoDays = Num 5, urgency = ''routine'',
       healthScore = Num 90, growthStage = JStr ''flowering'', issues = [],
       observations = JStr ''healthy'', recommendations = []\<rparr> ''tomato'' ''flowering''"
  by (simp add: calculateNextPhotoDate_def Let_def less_number_def le_number_def stageAdjustments_def
        setDate_def getDate_def LocalTime_def UTC_def Day_def TimeWithinDay_def msPerDay_def
        ToIntegerOrInfinity_def TimeClip_def DateFromTime_14_Nov_2023 DateFromTime_15_Nov_2023)

end
